theory Spec2Isabelle
  imports Main
begin

section \<open>Python strings\<close>

text \<open>
  A Python \<open>str\<close> is modelled as a \<^typ>\<open>string\<close> whose characters are the code points
  U+0000 .. U+00FF. \<open>isspace\<close> lists the code points of that range for which
  \<open>str.isspace\<close> is true; \<open>str.strip()\<close> removes them from both ends.
\<close>

definition isspace :: "char \<Rightarrow> bool" where
  "isspace c =
     (let n = (of_char c :: nat)
      in (9 \<le> n \<and> n \<le> 13) \<or> (28 \<le> n \<and> n \<le> 32) \<or> n = 133 \<or> n = 160)"

definition strip :: "string \<Rightarrow> string" where
  "strip s = rev (dropWhile isspace (rev (dropWhile isspace s)))"

definition startswith :: "string \<Rightarrow> string \<Rightarrow> bool" where
  "startswith s p = (take (length p) s = p)"

text \<open>\<open>s.split(sep, 1)\<close> for a one-character separator: at most one split, at the first
  occurrence.\<close>

definition split_once :: "char \<Rightarrow> string \<Rightarrow> string list" where
  "split_once sep s =
     (if sep \<in> set s
      then [takeWhile (\<lambda>c. c \<noteq> sep) s, tl (dropWhile (\<lambda>c. c \<noteq> sep) s)]
      else [s])"

section \<open>Channel list reader (batch\_download\_channels.py)\<close>

text \<open>
  A file opened in text mode is read with universal newlines: \<open>\r\n\<close> and a lone
  \<open>\r\<close> arrive as \<open>\n\<close>. Iterating over the file yields the lines, each with its
  terminating \<open>\n\<close> (the last line may have none).
\<close>

fun universal_newlines :: "string \<Rightarrow> string" where
  "universal_newlines [] = []"
| "universal_newlines [c] = [if c = CHR 0x0D then CHR 0x0A else c]"
| "universal_newlines (c # d # cs) =
     (if c = CHR 0x0D \<and> d = CHR 0x0A then CHR 0x0A # universal_newlines cs
      else if c = CHR 0x0D then CHR 0x0A # universal_newlines (d # cs)
      else c # universal_newlines (d # cs))"

fun iter_lines :: "string \<Rightarrow> string \<Rightarrow> string list" where
  "iter_lines cur [] = (if cur = [] then [] else [cur])"
| "iter_lines cur (c # cs) =
     (if c = CHR 0x0A then (cur @ [c]) # iter_lines [] cs else iter_lines (cur @ [c]) cs)"

text \<open>
  The body of the loop of \<open>read_channel_list\<close> for one line: the list \<open>channels\<close> is
  returned with the entry of the line appended, or unchanged when the line is skipped
  (the warnings it logs do not change the list).
\<close>

definition read_line :: "string \<Rightarrow> (string \<times> string) list \<Rightarrow> (string \<times> string) list" where
  "read_line raw channels =
     (let line = strip raw
      in if line = [] \<or> startswith line ''#'' then channels
         else if CHR '','' \<in> set line then
           (let parts = split_once CHR '','' line
            in if length parts = 2
               then channels @ [(strip (parts ! 0), strip (parts ! 1))]
               else channels)
         else channels)"

fun read_lines :: "string list \<Rightarrow> (string \<times> string) list \<Rightarrow> (string \<times> string) list" where
  "read_lines [] channels = channels"
| "read_lines (l # ls) channels = read_lines ls (read_line l channels)"

text \<open>
  What \<open>open(filepath, 'r', encoding='utf-8')\<close> finds at a path: nothing, bytes that
  are not UTF-8 (reading raises), or text.
\<close>

datatype file_data = Undecodable | Text string

text \<open>\<open>read_channel_list\<close>: \<open>Inl code\<close> is \<open>sys.exit(code)\<close>.\<close>

definition read_channel_list :: "(string \<rightharpoonup> file_data) \<Rightarrow> string \<Rightarrow> int + (string \<times> string) list" where
  "read_channel_list fs filename =
     (case fs filename of
        None \<Rightarrow> Inl 1
      | Some Undecodable \<Rightarrow> Inl 1
      | Some (Text content) \<Rightarrow> Inr (read_lines (iter_lines [] (universal_newlines content)) []))"

section \<open>JSON values and \<open>json.dump\<close>\<close>

text \<open>
  The dictionaries the program builds and writes are JSON values. A \<open>dict\<close> is an
  association list in insertion order. A float is carried as the text \<open>repr\<close> gives for
  it (floating-point arithmetic is not modelled; the program does none on these values).
\<close>

datatype json =
    JNull
  | JBool bool
  | JInt int
  | JFloat string
  | JStr string
  | JList "json list"
  | JObj "(string \<times> json) list"

type_synonym py_dict = "(string \<times> json) list"

text \<open>\<open>d[k] = v\<close>: an existing key keeps its place, a new key goes last.\<close>

fun dict_set :: "string \<Rightarrow> json \<Rightarrow> py_dict \<Rightarrow> py_dict" where
  "dict_set k v [] = [(k, v)]"
| "dict_set k v (p # ps) = (if fst p = k then (k, v) # ps else p # dict_set k v ps)"

text \<open>\<open>d.get(k, default)\<close>.\<close>

definition dict_get :: "py_dict \<Rightarrow> string \<Rightarrow> json \<Rightarrow> json" where
  "dict_get d k dflt = (case map_of d k of Some v \<Rightarrow> v | None \<Rightarrow> dflt)"

text \<open>Python's truth value of an object, and \<open>a or b\<close>.\<close>

fun truthy :: "json \<Rightarrow> bool" where
  "truthy JNull = False"
| "truthy (JBool b) = b"
| "truthy (JInt i) = (i \<noteq> 0)"
| "truthy (JFloat r) = (r \<noteq> ''0.0'' \<and> r \<noteq> ''-0.0'')"
| "truthy (JStr s) = (s \<noteq> [])"
| "truthy (JList xs) = (xs \<noteq> [])"
| "truthy (JObj kvs) = (kvs \<noteq> [])"

definition py_or :: "json \<Rightarrow> json \<Rightarrow> json" where
  "py_or a b = (if truthy a then a else b)"

text \<open>Decimal text of an integer (\<open>str(n)\<close>, \<open>int.__repr__\<close>).\<close>

definition digit_char :: "nat \<Rightarrow> char" where
  "digit_char d = ''0123456789abcdef'' ! d"

fun str_nat :: "nat \<Rightarrow> string" where
  "str_nat n = (if n < 10 then [digit_char n] else str_nat (n div 10) @ [digit_char (n mod 10)])"

declare str_nat.simps [simp del]

definition str_int :: "int \<Rightarrow> string" where
  "str_int i = (if i < 0 then CHR ''-'' # str_nat (nat (- i)) else str_nat (nat i))"

text \<open>
  \<open>json.dump(obj, f, ensure_ascii=False, indent=2)\<close>, as the standard library's encoder
  writes it: with \<open>ensure_ascii=False\<close> only the quote, the backslash and the control
  characters below U+0020 are escaped, every other character is written as it is; with
  \<open>indent=2\<close> every element of a non-empty list or dict stands on a line of its own,
  indented by two spaces per nesting level, items are separated by \<open>,\<close> and a key from
  its value by \<open>: \<close>.
\<close>

definition escape_char :: "char \<Rightarrow> string" where
  "escape_char c =
     (if c = CHR 0x5C then [CHR 0x5C, CHR 0x5C]
      else if c = CHR 0x22 then [CHR 0x5C, CHR 0x22]
      else if c = CHR 0x08 then [CHR 0x5C, CHR ''b'']
      else if c = CHR 0x0C then [CHR 0x5C, CHR ''f'']
      else if c = CHR 0x0A then [CHR 0x5C, CHR ''n'']
      else if c = CHR 0x0D then [CHR 0x5C, CHR ''r'']
      else if c = CHR 0x09 then [CHR 0x5C, CHR ''t'']
      else if (of_char c :: nat) < 32
        then [CHR 0x5C, CHR ''u'', CHR ''0'', CHR ''0'',
              digit_char ((of_char c :: nat) div 16), digit_char ((of_char c :: nat) mod 16)]
      else [c])"

definition encode_basestring :: "string \<Rightarrow> string" where
  "encode_basestring s = [CHR 0x22] @ concat (map escape_char s) @ [CHR 0x22]"

fun join :: "string \<Rightarrow> string list \<Rightarrow> string" where
  "join sep [] = []"
| "join sep [x] = x"
| "join sep (x # y # ys) = x @ sep @ join sep (y # ys)"

definition newline_indent :: "nat \<Rightarrow> string" where
  "newline_indent level = CHR 0x0A # replicate (2 * level) CHR '' ''"

definition encode_items :: "string \<Rightarrow> string \<Rightarrow> nat \<Rightarrow> string list \<Rightarrow> string" where
  "encode_items opening closing level items =
     (if items = [] then opening @ closing
      else opening @ newline_indent (Suc level) @
           join ('','' @ newline_indent (Suc level)) items @
           newline_indent level @ closing)"

primrec json_encode :: "json \<Rightarrow> nat \<Rightarrow> string" where
  "json_encode JNull level = ''null''"
| "json_encode (JBool b) level = (if b then ''true'' else ''false'')"
| "json_encode (JInt i) level = str_int i"
| "json_encode (JFloat r) level = r"
| "json_encode (JStr s) level = encode_basestring s"
| "json_encode (JList xs) level =
     encode_items ''['' '']'' level (map (\<lambda>enc. enc (Suc level)) (map json_encode xs))"
| "json_encode (JObj kvs) level =
     encode_items ''{'' ''}'' level
       (map (\<lambda>(k, enc). encode_basestring k @ '': '' @ enc (Suc level))
            (map (map_prod id json_encode) kvs))"

definition json_dumps :: "json \<Rightarrow> string" where
  "json_dumps v = json_encode v 0"

section \<open>Writing a file\<close>

text \<open>
  \<open>with open(path, 'w', encoding='utf-8') as f: json.dump(...)\<close> either writes the whole
  text, or fails to open the file (which is then left as it was), or fails after a
  prefix of the text has reached the file. The two failures raise an exception whose
  \<open>str\<close> is the message.
\<close>

datatype write_outcome = WriteOk | OpenFails string | WriteFails nat string

type_synonym filesystem = "string \<rightharpoonup> file_data"

definition write_text :: "string \<Rightarrow> string \<Rightarrow> write_outcome \<Rightarrow> filesystem \<Rightarrow> filesystem" where
  "write_text path txt outcome fs =
     (case outcome of
        WriteOk \<Rightarrow> fs(path \<mapsto> Text txt)
      | OpenFails msg \<Rightarrow> fs
      | WriteFails n msg \<Rightarrow> fs(path \<mapsto> Text (take n txt)))"

definition write_error :: "write_outcome \<Rightarrow> string option" where
  "write_error outcome =
     (case outcome of WriteOk \<Rightarrow> None | OpenFails msg \<Rightarrow> Some msg | WriteFails n msg \<Rightarrow> Some msg)"

section \<open>Video ID extraction (yt\_downloader.py)\<close>

text \<open>
  The character class \<open>[0-9A-Za-z_-]\<close>, and a match of \<open>([0-9A-Za-z_-]{11})\<close> at the
  start of a text: the group is the first eleven characters.
\<close>

definition id_char :: "char \<Rightarrow> bool" where
  "id_char c =
     (let n = (of_char c :: nat)
      in (48 \<le> n \<and> n \<le> 57) \<or> (65 \<le> n \<and> n \<le> 90) \<or> (97 \<le> n \<and> n \<le> 122) \<or>
         c = CHR ''_'' \<or> c = CHR ''-'')"

definition match_id :: "string \<Rightarrow> string option" where
  "match_id s =
     (if 11 \<le> length s \<and> list_all id_char (take 11 s) then Some (take 11 s) else None)"

text \<open>
  \<open>re.search\<close> tries the start positions from left to right and returns the first match.
  Pattern 1 is \<open>(?:v=|\/)([0-9A-Za-z_-]{11}).*\<close>: at a position, \<open>v=\<close> or \<open>/\<close> and then
  the group; the trailing \<open>.*\<close> matches any rest, the empty one too.
\<close>

definition match_pattern1 :: "string \<Rightarrow> string option" where
  "match_pattern1 s =
     (case (if startswith s ''v='' then match_id (drop 2 s) else None) of
        Some g \<Rightarrow> Some g
      | None \<Rightarrow> (if startswith s ''/'' then match_id (drop 1 s) else None))"

fun search_pattern1 :: "string \<Rightarrow> string option" where
  "search_pattern1 [] = None"
| "search_pattern1 (c # cs) =
     (case match_pattern1 (c # cs) of Some g \<Rightarrow> Some g | None \<Rightarrow> search_pattern1 cs)"

text \<open>Pattern 2 is \<open>(?:embed\/)([0-9A-Za-z_-]{11})\<close>.\<close>

definition match_pattern2 :: "string \<Rightarrow> string option" where
  "match_pattern2 s = (if startswith s ''embed/'' then match_id (drop 6 s) else None)"

fun search_pattern2 :: "string \<Rightarrow> string option" where
  "search_pattern2 [] = None"
| "search_pattern2 (c # cs) =
     (case match_pattern2 (c # cs) of Some g \<Rightarrow> Some g | None \<Rightarrow> search_pattern2 cs)"

text \<open>
  Pattern 3 is \<open>^([0-9A-Za-z_-]{11})$\<close>: \<open>^\<close> matches at the start of the text only,
  \<open>$\<close> at its end or before a newline that ends it.
\<close>

definition search_pattern3 :: "string \<Rightarrow> string option" where
  "search_pattern3 s =
     (if drop 11 s = [] \<or> drop 11 s = [CHR 0x0A] then match_id s else None)"

definition extract_video_id :: "string \<Rightarrow> string option" where
  "extract_video_id url =
     (case search_pattern1 url of
        Some g \<Rightarrow> Some g
      | None \<Rightarrow>
          (case search_pattern2 url of
             Some g \<Rightarrow> Some g
           | None \<Rightarrow> search_pattern3 url))"

text \<open>A text has an 11-character token when eleven characters of the class stand in a row
  somewhere in it.\<close>

fun has_token :: "string \<Rightarrow> bool" where
  "has_token [] = False"
| "has_token (c # cs) = (match_id (c # cs) \<noteq> None \<or> has_token cs)"

section \<open>The downloader (yt\_downloader.py)\<close>

text \<open>
  The configuration of a \<open>YTDownloader\<close> (the constructor's arguments) and its counters.
  The two sleep intervals are floats.
\<close>

record config =
  output_base_dir :: string
  sleep_interval :: string
  max_sleep_interval :: string
  sleep_requests :: int
  rate_limit :: string
  max_retries :: int
  cookies_file :: "string option"

record stats =
  total_videos :: int
  successful :: int
  failed :: int
  skipped :: int

definition init_stats :: stats where
  "init_stats = \<lparr>total_videos = 0, successful = 0, failed = 0, skipped = 0\<rparr>"

text \<open>
  What the program asks of its surroundings. \<open>'w\<close> is the state of the world outside the
  program (network, clock, disk permissions); every call reads it and may change it.
  An exception (an instance of \<open>Exception\<close>) is given by its \<open>str\<close>.

  An entry of a channel listing is \<open>None\<close> or a dict; of the dict only the text that
  \<open>f"{entry['id']}"\<close> renders is kept (\<open>None\<close> when the dict has no key \<open>id\<close>; an empty
  dict has none). The listing's iteration may raise after its last entry.
\<close>

datatype entry = EntryNone | EntryDict "string option"

datatype extract_result =
    ExtractRaises string
  | ExtractNone
  | ExtractNoEntries
  | ExtractEntries "entry list" "string option"

datatype download_result = DownloadRaises string | DownloadInfo "py_dict option"

record 'w library =
  path_join :: "string \<Rightarrow> string \<Rightarrow> string"
  os_exists :: "string \<Rightarrow> 'w \<Rightarrow> bool"
  os_mkdir :: "string \<Rightarrow> 'w \<Rightarrow> string option \<times> 'w"
  os_open_write :: "string \<Rightarrow> 'w \<Rightarrow> write_outcome \<times> 'w"
  ydl_extract_flat :: "py_dict \<Rightarrow> string \<Rightarrow> 'w \<Rightarrow> extract_result \<times> 'w"
  ydl_download :: "py_dict \<Rightarrow> string \<Rightarrow> 'w \<Rightarrow> download_result \<times> 'w"
  time_strftime :: "'w \<Rightarrow> string"
  time_sleep_uniform :: "string \<Rightarrow> string \<Rightarrow> 'w \<Rightarrow> 'w"

record 'w state =
  world :: 'w
  stats :: stats
  files :: filesystem

text \<open>\<open>self.cookies_file and Path(self.cookies_file).exists()\<close>.\<close>

definition use_cookies :: "'w library \<Rightarrow> config \<Rightarrow> 'w \<Rightarrow> bool" where
  "use_cookies lib cfg w =
     (case cookies_file cfg of None \<Rightarrow> False | Some f \<Rightarrow> f \<noteq> [] \<and> os_exists lib f w)"

definition get_ydl_opts :: "'w library \<Rightarrow> config \<Rightarrow> string \<Rightarrow> 'w \<Rightarrow> py_dict" where
  "get_ydl_opts lib cfg output_dir w =
     [(''outtmpl'', JStr (path_join lib output_dir ''%(id)s.%(ext)s'')),
      (''format'',
         JStr ''bestaudio[ext=wav]/bestaudio[ext=flac]/bestaudio[ext=m4a]/bestaudio/best''),
      (''audio_quality'', JInt 0),
      (''sleep_interval'', JFloat (sleep_interval cfg)),
      (''max_sleep_interval'', JFloat (max_sleep_interval cfg)),
      (''sleep_interval_requests'', JInt (sleep_requests cfg)),
      (''ratelimit'', JStr (rate_limit cfg)),
      (''retries'', JInt (max_retries cfg)),
      (''fragment_retries'', JInt (max_retries cfg)),
      (''nocheckcertificate'', JBool True),
      (''ignoreerrors'', JBool False),
      (''no_warnings'', JBool False),
      (''quiet'', JBool False),
      (''verbose'', JBool False),
      (''writeinfojson'', JBool True),
      (''writethumbnail'', JBool False),
      (''writesubtitles'', JBool False),
      (''postprocessors'',
         JList [JObj [(''key'', JStr ''FFmpegExtractAudio''),
                      (''preferredcodec'', JStr ''wav''),
                      (''preferredquality'', JStr ''0'')],
                JObj [(''key'', JStr ''FFmpegMetadata'')]]),
      (''user_agent'',
         JStr (''Mozilla/5.0 (Windows NT 10.0; Win64; x64) AppleWebKit/537.36 '' @
               ''(KHTML, like Gecko) Chrome/120.0.0.0 Safari/537.36''))]
     @ (if use_cookies lib cfg w then [(''cookiefile'', JStr (the (cookies_file cfg)))] else [])"

subsection \<open>\<open>get_channel_videos\<close>\<close>

text \<open>\<open>max_videos and len(video_urls) >= max_videos\<close>, for \<open>max_videos: Optional[int]\<close>.\<close>

definition reached_max :: "int option \<Rightarrow> string list \<Rightarrow> bool" where
  "reached_max max_videos video_urls =
     (case max_videos of
        None \<Rightarrow> False
      | Some m \<Rightarrow> m \<noteq> 0 \<and> int (length video_urls) \<ge> m)"

text \<open>The loop over \<open>result['entries']\<close>; \<open>Inl\<close> when the iteration raises.\<close>

fun collect_urls :: "int option \<Rightarrow> entry list \<Rightarrow> string option \<Rightarrow> string list \<Rightarrow> string + string list" where
  "collect_urls max_videos [] raises video_urls =
     (case raises of Some e \<Rightarrow> Inl e | None \<Rightarrow> Inr video_urls)"
| "collect_urls max_videos (EntryDict (Some video_id) # es) raises video_urls =
     (let video_urls' = video_urls @ [''https://www.youtube.com/watch?v='' @ video_id]
      in if reached_max max_videos video_urls' then Inr video_urls'
         else collect_urls max_videos es raises video_urls')"
| "collect_urls max_videos (e # es) raises video_urls =
     collect_urls max_videos es raises video_urls"

definition flat_opts :: "'w library \<Rightarrow> config \<Rightarrow> 'w \<Rightarrow> py_dict" where
  "flat_opts lib cfg w =
     [(''quiet'', JBool True), (''extract_flat'', JBool True),
      (''force_generic_extractor'', JBool False), (''ignoreerrors'', JBool True)]
     @ (if use_cookies lib cfg w then [(''cookiefile'', JStr (the (cookies_file cfg)))] else [])"

definition get_channel_videos :: "'w library \<Rightarrow> config \<Rightarrow> string \<Rightarrow> int option \<Rightarrow> 'w \<Rightarrow> string list \<times> 'w" where
  "get_channel_videos lib cfg channel_url max_videos w =
     (case ydl_extract_flat lib (flat_opts lib cfg w) channel_url w of
        (ExtractRaises e, w') \<Rightarrow> ([], w')
      | (ExtractNone, w') \<Rightarrow> ([], w')
      | (ExtractNoEntries, w') \<Rightarrow> ([], w')
      | (ExtractEntries es raises, w') \<Rightarrow>
          (case collect_urls max_videos es raises [] of
             Inl e \<Rightarrow> ([], w')
           | Inr video_urls \<Rightarrow> (video_urls, w')))"

subsection \<open>\<open>download_video_audio\<close>\<close>

definition extract_metadata :: "'w library \<Rightarrow> py_dict \<Rightarrow> string \<Rightarrow> string \<Rightarrow> 'w \<Rightarrow> py_dict" where
  "extract_metadata lib info channel_name video_url w =
     [(''video_id'', dict_get info ''id'' JNull),
      (''title'', dict_get info ''title'' JNull),
      (''channel_url'', JStr video_url),
      (''channel_name'', JStr channel_name),
      (''upload_date'', dict_get info ''upload_date'' JNull),
      (''uploader'', dict_get info ''uploader'' JNull),
      (''duration_sec'', dict_get info ''duration'' JNull),
      (''view_count'', dict_get info ''view_count'' JNull),
      (''like_count'', dict_get info ''like_count'' JNull),
      (''description'', dict_get info ''description'' JNull),
      (''audio_metadata'',
         JObj [(''codec'', dict_get info ''acodec'' JNull),
               (''sample_rate'', dict_get info ''asr'' JNull),
               (''bit_rate'', dict_get info ''abr'' JNull),
               (''channels'', dict_get info ''audio_channels'' (JInt 2)),
               (''format'', dict_get info ''ext'' JNull),
               (''file_size'',
                  py_or (dict_get info ''filesize'' JNull) (dict_get info ''filesize_approx'' JNull))]),
      (''download_timestamp'', JStr (time_strftime lib w)),
      (''original_url'', JStr video_url)]"

text \<open>The result of the \<open>except Exception as e\<close> branch: the counter and the dict.\<close>

definition download_failed :: "string \<Rightarrow> string \<Rightarrow> string \<Rightarrow> string \<Rightarrow> 'w state \<Rightarrow> (string + py_dict) \<times> 'w state" where
  "download_failed video_url video_id channel_name e s =
     (Inr [(''video_url'', JStr video_url),
           (''video_id'', JStr video_id),
           (''channel_name'', JStr channel_name),
           (''status'', JStr ''failed''),
           (''error'', JStr e)],
      s\<lparr>stats := (stats s)\<lparr>failed := failed (stats s) + 1\<rparr>\<rparr>)"

text \<open>
  \<open>download_video_audio\<close>: \<open>Inr\<close> is the returned dict, \<open>Inl\<close> an exception that leaves the
  call (the \<open>mkdir\<close> stands before the \<open>try\<close>).
\<close>

definition download_video_audio :: "'w library \<Rightarrow> config \<Rightarrow> string \<Rightarrow> string \<Rightarrow> 'w state \<Rightarrow> (string + py_dict) \<times> 'w state" where
  "download_video_audio lib cfg video_url channel_name s =
     (case extract_video_id video_url of
        None \<Rightarrow>
          (Inr [(''video_url'', JStr video_url),
                (''status'', JStr ''failed''),
                (''error'', JStr ''Invalid video URL'')], s)
      | Some video_id \<Rightarrow>
          (let video_output_dir =
                 path_join lib (path_join lib (output_base_dir cfg) channel_name) video_id
           in case os_mkdir lib video_output_dir (world s) of
                (Some e, w1) \<Rightarrow> (Inl e, s\<lparr>world := w1\<rparr>)
              | (None, w1) \<Rightarrow>
                  (case ydl_download lib (get_ydl_opts lib cfg video_output_dir w1) video_url w1 of
                     (DownloadRaises e, w2) \<Rightarrow>
                       download_failed video_url video_id channel_name e (s\<lparr>world := w2\<rparr>)
                   | (DownloadInfo None, w2) \<Rightarrow>
                       download_failed video_url video_id channel_name
                         ''No info returned from yt-dlp'' (s\<lparr>world := w2\<rparr>)
                   | (DownloadInfo (Some info), w2) \<Rightarrow>
                       (if info = [] then
                          download_failed video_url video_id channel_name
                            ''No info returned from yt-dlp'' (s\<lparr>world := w2\<rparr>)
                        else
                          (let metadata = extract_metadata lib info channel_name video_url w2;
                               metadata_file = path_join lib video_output_dir (video_id @ ''.json'')
                           in case os_open_write lib metadata_file w2 of
                                (outcome, w3) \<Rightarrow>
                                  (let s3 = s\<lparr>world := w3,
                                              files := write_text metadata_file
                                                (json_dumps (JObj metadata)) outcome (files s)\<rparr>
                                   in case write_error outcome of
                                        Some e \<Rightarrow>
                                          download_failed video_url video_id channel_name e s3
                                      | None \<Rightarrow>
                                          (Inr [(''video_url'', JStr video_url),
                                                (''video_id'', JStr video_id),
                                                (''channel_name'', JStr channel_name),
                                                (''status'', JStr ''success''),
                                                (''output_dir'', JStr video_output_dir),
                                                (''metadata_file'', JStr metadata_file),
                                                (''metadata'', JObj metadata)],
                                           s3\<lparr>stats := (stats s3)
                                                \<lparr>successful := successful (stats s3) + 1\<rparr>\<rparr>)))))))"

subsection \<open>\<open>download_from_channel\<close>\<close>

text \<open>
  The loop over \<open>video_urls\<close>: \<open>idx < len(video_urls)\<close> holds exactly when URLs remain, and
  then the program sleeps before the next download.
\<close>

fun download_loop :: "'w library \<Rightarrow> config \<Rightarrow> string \<Rightarrow> string list \<Rightarrow> py_dict list \<Rightarrow> 'w state \<Rightarrow> (string + py_dict list) \<times> 'w state" where
  "download_loop lib cfg channel_name [] results s = (Inr results, s)"
| "download_loop lib cfg channel_name (video_url # rest) results s =
     (case download_video_audio lib cfg video_url channel_name s of
        (Inl e, s') \<Rightarrow> (Inl e, s')
      | (Inr result, s') \<Rightarrow>
          download_loop lib cfg channel_name rest (results @ [result])
            (if rest \<noteq> []
             then s'\<lparr>world := time_sleep_uniform lib (sleep_interval cfg) (max_sleep_interval cfg)
                                (world s')\<rparr>
             else s'))"

definition download_from_channel :: "'w library \<Rightarrow> config \<Rightarrow> string \<Rightarrow> string \<Rightarrow> int option \<Rightarrow> 'w state \<Rightarrow> (string + py_dict list) \<times> 'w state" where
  "download_from_channel lib cfg channel_url channel_name max_videos s =
     (case get_channel_videos lib cfg channel_url max_videos (world s) of
        (video_urls, w') \<Rightarrow>
          (if video_urls = [] then (Inr [], s\<lparr>world := w'\<rparr>)
           else download_loop lib cfg channel_name video_urls []
                  (s\<lparr>world := w',
                     stats := (stats s)\<lparr>total_videos :=
                                total_videos (stats s) + int (length video_urls)\<rparr>\<rparr>)))"

text \<open>\<open>print_stats\<close>: the lines it logs.\<close>

definition print_stats :: "stats \<Rightarrow> string list" where
  "print_stats st =
     [CHR 0x0A # replicate 60 CHR ''='',
      ''DOWNLOAD STATISTICS'',
      replicate 60 CHR ''='',
      ''Total videos: '' @ str_int (total_videos st),
      ''Successful: '' @ str_int (successful st),
      ''Failed: '' @ str_int (failed st),
      ''Skipped: '' @ str_int (skipped st),
      replicate 60 CHR ''='']"

section \<open>The batch orchestrator (batch\_download\_channels.py)\<close>

text \<open>
  \<open>save_batch_results\<close>: the write is inside a \<open>try\<close> whose \<open>except\<close> only logs, so the
  function never raises.
\<close>

definition save_batch_results :: "'w library \<Rightarrow> py_dict \<Rightarrow> string \<Rightarrow> 'w state \<Rightarrow> 'w state" where
  "save_batch_results lib results output_file s =
     (case os_open_write lib output_file (world s) of
        (outcome, w') \<Rightarrow>
          s\<lparr>world := w',
            files := write_text output_file (json_dumps (JObj results)) outcome (files s)\<rparr>)"

text \<open>
  \<open>sum(1 for r in results if r['status'] == tag)\<close>; \<open>r['status']\<close> raises \<open>KeyError\<close> for
  a dict without the key.
\<close>

definition count_status :: "string \<Rightarrow> py_dict list \<Rightarrow> string + int" where
  "count_status tag results =
     (if list_all (\<lambda>r. map_of r ''status'' \<noteq> None) results
      then Inr (int (length (filter (\<lambda>r. map_of r ''status'' = Some (JStr tag)) results)))
      else Inl ([CHR 0x27] @ ''status'' @ [CHR 0x27]))"

record 'w batch =
  dl :: "'w state"
  all_results :: py_dict
  failed_channels :: "(string \<times> string) list"

text \<open>The \<open>except Exception as e\<close> branch of the loop over the channels.\<close>

definition channel_error :: "string \<Rightarrow> string \<Rightarrow> string \<Rightarrow> 'w state \<Rightarrow> 'w batch \<Rightarrow> 'w batch" where
  "channel_error channel_name channel_url e s b =
     b\<lparr>dl := s,
       failed_channels := failed_channels b @ [(channel_name, e)],
       all_results := dict_set channel_name
         (JObj [(''channel_url'', JStr channel_url),
                (''status'', JStr ''error''),
                (''error'', JStr e)])
         (all_results b)\<rparr>"

text \<open>The body of the loop over the channels.\<close>

definition process_channel :: "'w library \<Rightarrow> config \<Rightarrow> int option \<Rightarrow> string \<times> string \<Rightarrow> 'w batch \<Rightarrow> 'w batch" where
  "process_channel lib cfg max_videos channel b =
     (case channel of
        (channel_name, channel_url) \<Rightarrow>
          (case download_from_channel lib cfg channel_url channel_name max_videos (dl b) of
             (Inl e, s') \<Rightarrow> channel_error channel_name channel_url e s' b
           | (Inr results, s') \<Rightarrow>
               (case count_status ''success'' results of
                  Inl e \<Rightarrow> channel_error channel_name channel_url e s' b
                | Inr n_success \<Rightarrow>
                    (case count_status ''failed'' results of
                       Inl e \<Rightarrow> channel_error channel_name channel_url e s' b
                     | Inr n_failed \<Rightarrow>
                         (let all_results' = dict_set channel_name
                                (JObj [(''channel_url'', JStr channel_url),
                                       (''total_videos'', JInt (int (length results))),
                                       (''successful'', JInt n_success),
                                       (''failed'', JInt n_failed),
                                       (''videos'', JList (map JObj results))])
                                (all_results b)
                          in b\<lparr>dl := save_batch_results lib all_results'
                                        ''batch_results_checkpoint.json'' s',
                               all_results := all_results'\<rparr>)))))"

fun process_channels :: "'w library \<Rightarrow> config \<Rightarrow> int option \<Rightarrow> (string \<times> string) list \<Rightarrow> 'w batch \<Rightarrow> 'w batch" where
  "process_channels lib cfg max_videos [] b = b"
| "process_channels lib cfg max_videos (channel # rest) b =
     process_channels lib cfg max_videos rest (process_channel lib cfg max_videos channel b)"

text \<open>The command line arguments, and \<open>main\<close>. The slice \<open>channels[:n]\<close> counts a negative
  \<open>n\<close> from the end.\<close>

record args =
  arg_channels_file :: string
  arg_output_dir :: string
  arg_sleep_min :: string
  arg_sleep_max :: string
  arg_rate_limit :: string
  arg_max_videos_per_channel :: "int option"
  arg_max_channels :: "int option"
  arg_cookies_file :: "string option"
  arg_start_from :: int

definition slice_to :: "int \<Rightarrow> 'a list \<Rightarrow> 'a list" where
  "slice_to n xs = (if 0 \<le> n then take (nat n) xs else take (length xs - nat (- n)) xs)"

definition init_batch :: "'w \<Rightarrow> filesystem \<Rightarrow> 'w batch" where
  "init_batch w fs =
     \<lparr>dl = \<lparr>world = w, stats = init_stats, files = fs\<rparr>, all_results = [], failed_channels = []\<rparr>"

definition make_config :: "args \<Rightarrow> config" where
  "make_config a =
     \<lparr>output_base_dir = arg_output_dir a,
      sleep_interval = arg_sleep_min a,
      max_sleep_interval = arg_sleep_max a,
      sleep_requests = 1,
      rate_limit = arg_rate_limit a,
      max_retries = 3,
      cookies_file = arg_cookies_file a\<rparr>"

text \<open>
  \<open>main\<close>: \<open>Inr code\<close> is the exit code of the process (\<open>sys.exit(1)\<close>, or 0 when \<open>main\<close>
  returns), \<open>Inl e\<close> an exception nothing catches (the constructor of the downloader
  creates the output directory).
\<close>

definition main :: "'w library \<Rightarrow> args \<Rightarrow> 'w \<Rightarrow> filesystem \<Rightarrow> (string + int) \<times> 'w batch" where
  "main lib a w fs =
     (case read_channel_list fs (arg_channels_file a) of
        Inl code \<Rightarrow> (Inr code, init_batch w fs)
      | Inr channels \<Rightarrow>
          (if channels = [] then (Inr 1, init_batch w fs)
           else
             (let channels1 = (case arg_max_channels a of
                                 None \<Rightarrow> channels
                               | Some n \<Rightarrow> if n \<noteq> 0 then slice_to n channels else channels);
                  channels2 = (if arg_start_from a > 0
                               then drop (nat (arg_start_from a)) channels1 else channels1)
              in case os_mkdir lib (arg_output_dir a) w of
                   (Some e, w1) \<Rightarrow> (Inl e, init_batch w1 fs)
                 | (None, w1) \<Rightarrow>
                     (let b = process_channels lib (make_config a)
                                (arg_max_videos_per_channel a) channels2 (init_batch w1 fs)
                      in (Inr 0,
                          b\<lparr>dl := save_batch_results lib (all_results b)
                                     ''batch_results_final.json'' (dl b)\<rparr>)))))"

section \<open>Sequences of calls, and well-formed channel results\<close>

text \<open>
  The public operations of a \<open>YTDownloader\<close>, and a caller that makes a sequence of them
  on one instance (a call that raises leaves the instance as the call left it).
\<close>

datatype call =
    GetChannelVideos string "int option"
  | DownloadVideoAudio string string
  | DownloadFromChannel string string "int option"
  | PrintStats

fun do_call :: "'w library \<Rightarrow> config \<Rightarrow> call \<Rightarrow> 'w state \<Rightarrow> 'w state" where
  "do_call lib cfg (GetChannelVideos channel_url max_videos) s =
     s\<lparr>world := snd (get_channel_videos lib cfg channel_url max_videos (world s))\<rparr>"
| "do_call lib cfg (DownloadVideoAudio video_url channel_name) s =
     snd (download_video_audio lib cfg video_url channel_name s)"
| "do_call lib cfg (DownloadFromChannel channel_url channel_name max_videos) s =
     snd (download_from_channel lib cfg channel_url channel_name max_videos s)"
| "do_call lib cfg PrintStats s = s"

fun do_calls :: "'w library \<Rightarrow> config \<Rightarrow> call list \<Rightarrow> 'w state \<Rightarrow> 'w state" where
  "do_calls lib cfg [] s = s"
| "do_calls lib cfg (c # cs) s = do_calls lib cfg cs (do_call lib cfg c s)"

text \<open>The two values of \<open>status\<close> in the dict that \<open>download_video_audio\<close> returns.\<close>

definition status_ok :: "py_dict \<Rightarrow> bool" where
  "status_ok d =
     (map_of d ''status'' = Some (JStr ''success'') \<or> map_of d ''status'' = Some (JStr ''failed''))"

text \<open>
  A value of the results mapping is either the error entry of a channel, which records
  no counts, or an entry whose counts add up: \<open>successful + failed = total_videos\<close>, and
  \<open>total_videos\<close> is the length of \<open>videos\<close>.
\<close>

definition is_error_entry :: "py_dict \<Rightarrow> bool" where
  "is_error_entry d =
     (map_of d ''status'' = Some (JStr ''error'') \<and> map_of d ''total_videos'' = None \<and>
      map_of d ''successful'' = None \<and> map_of d ''failed'' = None \<and> map_of d ''videos'' = None)"

definition counts_add_up :: "py_dict \<Rightarrow> bool" where
  "counts_add_up d =
     (case map_of d ''total_videos'' of
        Some (JInt t) \<Rightarrow>
          (case map_of d ''successful'' of
             Some (JInt sc) \<Rightarrow>
               (case map_of d ''failed'' of
                  Some (JInt fl) \<Rightarrow>
                    (case map_of d ''videos'' of
                       Some (JList vs) \<Rightarrow> sc + fl = t \<and> t = int (length vs)
                     | _ \<Rightarrow> False)
                | _ \<Rightarrow> False)
           | _ \<Rightarrow> False)
      | _ \<Rightarrow> False)"

definition channel_result_ok :: "json \<Rightarrow> bool" where
  "channel_result_ok r = (case r of JObj d \<Rightarrow> is_error_entry d \<or> counts_add_up d | _ \<Rightarrow> False)"

section \<open>A substitute for the external library\<close>

text \<open>
  The external library is a parameter of every operation, so the orchestration can be
  run with a substitute that returns canned answers. In this one the world is the number
  of calls made so far; the channel listing, the answer to \<open>mkdir\<close> for each path and
  the answer to a download are given.
\<close>

definition canned_library :: "entry list \<Rightarrow> (string \<Rightarrow> string option) \<Rightarrow> download_result \<Rightarrow> nat library" where
  "canned_library entries mkdir_answer download_answer =
     \<lparr>path_join = (\<lambda>a b. a @ ''/'' @ b),
      os_exists = (\<lambda>path w. False),
      os_mkdir = (\<lambda>path w. (mkdir_answer path, Suc w)),
      os_open_write = (\<lambda>path w. (WriteOk, Suc w)),
      ydl_extract_flat = (\<lambda>opts url w. (ExtractEntries entries None, Suc w)),
      ydl_download = (\<lambda>opts url w. (download_answer, Suc w)),
      time_strftime = (\<lambda>w. ''2024-01-01 00:00:00''),
      time_sleep_uniform = (\<lambda>lo hi w. Suc w)\<rparr>"

definition default_config :: config where
  "default_config =
     \<lparr>output_base_dir = ''downloads'',
      sleep_interval = ''5.0'',
      max_sleep_interval = ''10.0'',
      sleep_requests = 1,
      rate_limit = ''500K'',
      max_retries = 3,
      cookies_file = None\<rparr>"

definition start_state :: "nat state" where
  "start_state = \<lparr>world = 0, stats = init_stats, files = Map.empty\<rparr>"

section \<open>The channel list reader: properties\<close>

lemma isspace_comma: "\<not> isspace CHR '',''"
  by (simp add: isspace_def)

lemma isspace_hash: "\<not> isspace CHR ''#''"
  by (simp add: isspace_def)

lemma rstrip_Cons:
  "rev (dropWhile P (rev cs @ [c])) =
     (if list_all P cs then (if P c then [] else [c]) else c # rev (dropWhile P (rev cs)))"
  by (auto simp: dropWhile_append list_all_iff)

lemma lstrip_rstrip_commute:
  "dropWhile P (rev (dropWhile P (rev xs))) = rev (dropWhile P (rev (dropWhile P xs)))"
proof (induction xs)
  case Nil
  show ?case by simp
next
  case (Cons c cs)
  show ?case
  proof (cases "P c")
    case True
    show ?thesis
    proof (cases "list_all P cs")
      case all: True
      then have d: "dropWhile P cs = []" by (simp add: list_all_iff)
      show ?thesis using True all by (simp add: rstrip_Cons d)
    next
      case False
      then show ?thesis using True Cons by (simp add: rstrip_Cons)
    qed
  next
    case False
    then show ?thesis by (simp add: rstrip_Cons)
  qed
qed

lemma strip_comma_split:
  assumes "CHR '','' \<notin> set a"
  shows "strip (a @ CHR '','' # b) = dropWhile isspace a @ CHR '','' # rev (dropWhile isspace (rev b))"
proof -
  have 1: "dropWhile isspace (a @ CHR '','' # b) = dropWhile isspace a @ CHR '','' # b"
    by (simp add: dropWhile_append isspace_comma)
  have 2: "dropWhile isspace (rev b @ CHR '','' # rev (dropWhile isspace a))
            = dropWhile isspace (rev b) @ CHR '','' # rev (dropWhile isspace a)"
    by (simp add: dropWhile_append isspace_comma)
  show ?thesis by (simp add: strip_def 1 2)
qed

lemma strip_lstrip: "strip (dropWhile isspace a) = strip a"
  by (simp add: strip_def)

lemma strip_rstrip: "strip (rev (dropWhile isspace (rev b))) = strip b"
  by (simp add: strip_def lstrip_rstrip_commute)

lemma read_line_split:
  assumes "CHR '','' \<notin> set a" and "\<not> startswith (strip (a @ CHR '','' # b)) ''#''"
  shows "read_line (a @ CHR '','' # b) channels = channels @ [(strip a, strip b)]"
proof -
  let ?l = "dropWhile isspace a"
  let ?r = "rev (dropWhile isspace (rev b))"
  have s: "strip (a @ CHR '','' # b) = ?l @ CHR '','' # ?r"
    using assms(1) by (rule strip_comma_split)
  have nl: "CHR '','' \<notin> set ?l"
    using assms(1) by (meson set_dropWhileD)
  have tw: "takeWhile (\<lambda>c. c \<noteq> CHR '','') (?l @ CHR '','' # ?r) = ?l"
    using nl by (simp add: takeWhile_append)
  have dw: "dropWhile (\<lambda>c. c \<noteq> CHR '','') (?l @ CHR '','' # ?r) = CHR '','' # ?r"
    using nl by (simp add: dropWhile_append)
  have sp: "split_once CHR '','' (?l @ CHR '','' # ?r) = [?l, ?r]"
    by (simp add: split_once_def tw dw)
  show ?thesis
    using assms(2) unfolding read_line_def s Let_def sp
    by (simp add: strip_lstrip strip_rstrip)
qed

lemma strip_subset: "set (strip s) \<subseteq> set s"
  unfolding strip_def by (auto dest!: set_dropWhileD)

lemma strip_hash: "startswith raw ''#'' \<Longrightarrow> startswith (strip raw) ''#''"
proof -
  assume "startswith raw ''#''"
  then obtain r where r: "raw = CHR ''#'' # r"
    by (cases raw) (auto simp: startswith_def)
  show ?thesis
    unfolding r strip_def using isspace_hash
    by (auto simp: startswith_def dropWhile_append)
qed

lemma read_line_skip:
  assumes "strip raw = [] \<or> startswith raw ''#'' \<or> CHR '','' \<notin> set raw"
  shows "read_line raw channels = channels"
proof -
  consider "strip raw = []" | "startswith (strip raw) ''#''" | "CHR '','' \<notin> set (strip raw)"
    using assms strip_hash strip_subset by blast
  then show ?thesis
    by cases (simp_all add: read_line_def Let_def)
qed

text \<open>
  Claim C7, as amended. A line \<open>a,b\<close> whose part \<open>a\<close> has no comma, and which is not a
  comment line (stripped, it does not start with \<open>#\<close>), yields exactly one entry: the
  name is \<open>a\<close> stripped and the url is everything after the first comma, stripped.
  Later commas stay in the url.
\<close>

theorem read_line_splits_first_comma:
  assumes "CHR '','' \<notin> set a" and "\<not> startswith (strip (a @ CHR '','' # b)) ''#''"
  shows "read_line (a @ CHR '','' # b) channels = channels @ [(strip a, strip b)]"
  using assms by (rule read_line_split)

theorem read_line_splits_first_comma_witness:
  "CHR '','' \<notin> set ''A'' \<and> \<not> startswith (strip (''A'' @ CHR '','' # ''B,C'')) ''#'' \<and>
   read_line ''A,B,C'' [] = [(''A'', ''B,C'')]"
proof -
  have 1: "CHR '','' \<notin> set ''A''" by simp
  have 2: "\<not> startswith (strip (''A'' @ CHR '','' # ''B,C'')) ''#''"
    by (simp add: strip_def isspace_def startswith_def)
  have 3: "strip ''A'' = ''A''" "strip ''B,C'' = ''B,C''"
    by (simp_all add: strip_def isspace_def)
  from read_line_splits_first_comma [OF 1 2, of "[]"] 1 2 3 show ?thesis by simp
qed

text \<open>
  The claim as it was stated (every line with a comma is split) fails on a comment line
  that contains a comma: the line is skipped.
\<close>

theorem read_line_comment_with_comma:
  "CHR '','' \<in> set ''#A,B,C'' \<and> read_line ''#A,B,C'' [] = []"
  by (simp add: read_line_def strip_def isspace_def startswith_def)

text \<open>
  Claim C8. A line that is empty once stripped, that starts with \<open>#\<close>, or that has no
  comma leaves the list of entries as it was (the reader has no failing branch for a
  line), and the file of the scenario reads as the two entries \<open>leon\<close> and \<open>foo\<close>, in
  that order.
\<close>

theorem read_line_skips:
  "(strip raw = [] \<or> startswith raw ''#'' \<or> CHR '','' \<notin> set raw
      \<longrightarrow> read_line raw channels = channels) \<and>
   (fs filename = Some (Text
        ''leon,https://x/channel/AAA\<newline># comment\<newline>\<newline>bad-line\<newline>foo,https://x/channel/BBB'')
      \<longrightarrow> read_channel_list fs filename =
           Inr [(''leon'', ''https://x/channel/AAA''), (''foo'', ''https://x/channel/BBB'')])"
proof (intro conjI impI)
  assume "strip raw = [] \<or> startswith raw ''#'' \<or> CHR '','' \<notin> set raw"
  then show "read_line raw channels = channels" by (rule read_line_skip)
next
  assume "fs filename = Some (Text
        ''leon,https://x/channel/AAA\<newline># comment\<newline>\<newline>bad-line\<newline>foo,https://x/channel/BBB'')"
  then show "read_channel_list fs filename =
           Inr [(''leon'', ''https://x/channel/AAA''), (''foo'', ''https://x/channel/BBB'')]"
    by (simp add: read_channel_list_def read_line_def strip_def isspace_def startswith_def
        split_once_def)
qed

theorem read_line_skips_witness:
  "read_line ''bad-line'' [(''leon'', ''https://x/channel/AAA'')] =
     [(''leon'', ''https://x/channel/AAA'')] \<and>
   read_channel_list
     [''channels.txt'' \<mapsto> Text
        ''leon,https://x/channel/AAA\<newline># comment\<newline>\<newline>bad-line\<newline>foo,https://x/channel/BBB'']
     ''channels.txt'' =
     Inr [(''leon'', ''https://x/channel/AAA''), (''foo'', ''https://x/channel/BBB'')]"
  using read_line_skips [of "''bad-line''" "[(''leon'', ''https://x/channel/AAA'')]"
      "[''channels.txt'' \<mapsto> Text
        ''leon,https://x/channel/AAA\<newline># comment\<newline>\<newline>bad-line\<newline>foo,https://x/channel/BBB'']"
      "''channels.txt''"]
  by simp

section \<open>Video ID extraction: properties\<close>

lemma match_id_has_token: "match_id s = Some g \<Longrightarrow> has_token s"
  by (cases s) (auto simp: match_id_def)

lemma has_token_drop: "has_token (drop n s) \<Longrightarrow> has_token s"
proof (induction s arbitrary: n)
  case Nil
  then show ?case by simp
next
  case (Cons c cs)
  show ?case
  proof (cases n)
    case 0
    with Cons.prems show ?thesis by simp
  next
    case (Suc m)
    with Cons.prems have "has_token (drop m cs)" by simp
    then have "has_token cs" by (rule Cons.IH)
    then show ?thesis by simp
  qed
qed

lemma match_pattern1_has_token: "match_pattern1 s = Some g \<Longrightarrow> has_token s"
  unfolding match_pattern1_def
  by (auto split: option.splits if_splits dest!: match_id_has_token has_token_drop)

lemma match_pattern2_has_token: "match_pattern2 s = Some g \<Longrightarrow> has_token s"
  unfolding match_pattern2_def
  by (auto split: if_splits dest!: match_id_has_token has_token_drop)

lemma search_pattern1_no_token: "\<not> has_token s \<Longrightarrow> search_pattern1 s = None"
proof (induction s)
  case Nil
  show ?case by simp
next
  case (Cons c cs)
  have "match_pattern1 (c # cs) = None"
  proof (cases "match_pattern1 (c # cs)")
    case None
    then show ?thesis .
  next
    case (Some g)
    then have "has_token (c # cs)" by (rule match_pattern1_has_token)
    with Cons.prems show ?thesis by contradiction
  qed
  moreover from Cons have "search_pattern1 cs = None" by simp
  ultimately show ?case by simp
qed

lemma search_pattern2_no_token: "\<not> has_token s \<Longrightarrow> search_pattern2 s = None"
proof (induction s)
  case Nil
  show ?case by simp
next
  case (Cons c cs)
  have "match_pattern2 (c # cs) = None"
  proof (cases "match_pattern2 (c # cs)")
    case None
    then show ?thesis .
  next
    case (Some g)
    then have "has_token (c # cs)" by (rule match_pattern2_has_token)
    with Cons.prems show ?thesis by contradiction
  qed
  moreover from Cons have "search_pattern2 cs = None" by simp
  ultimately show ?case by simp
qed

lemma search_pattern3_no_token: "\<not> has_token s \<Longrightarrow> search_pattern3 s = None"
  using match_id_has_token by (cases "match_id s") (auto simp: search_pattern3_def)

lemma extract_video_id_no_token: "\<not> has_token url \<Longrightarrow> extract_video_id url = None"
  by (simp add: extract_video_id_def search_pattern1_no_token search_pattern2_no_token
      search_pattern3_no_token)











section \<open>The downloader: properties\<close>

subsection \<open>The counter \<open>skipped\<close>\<close>

lemma download_failed_skipped:
  "download_failed u v n e s = (r, s') \<Longrightarrow> skipped (stats s') = skipped (stats s)"
  by (auto simp: download_failed_def)

lemma download_failed_status:
  "download_failed u v n e s = (r, s') \<Longrightarrow> \<exists>d. r = Inr d \<and> map_of d ''status'' = Some (JStr ''failed'')"
  by (auto simp: download_failed_def)

lemma download_video_audio_skipped:
  "skipped (stats (snd (download_video_audio lib cfg u n s))) = skipped (stats s)"
  by (auto simp: download_video_audio_def download_failed_def Let_def
      split: option.splits prod.splits download_result.splits)

lemma download_video_audio_status:
  "download_video_audio lib cfg u n s = (Inr d, s') \<Longrightarrow>
     map_of d ''status'' = Some (JStr ''success'') \<or> map_of d ''status'' = Some (JStr ''failed'')"
  by (auto simp: download_video_audio_def download_failed_def Let_def
      split: option.splits prod.splits download_result.splits if_splits)


lemma download_loop_skipped:
  "skipped (stats (snd (download_loop lib cfg n urls rs s))) = skipped (stats s)"
proof (induction urls arbitrary: rs s)
  case Nil
  show ?case by simp
next
  case (Cons u us)
  obtain r s' where d: "download_video_audio lib cfg u n s = (r, s')"
    by (cases "download_video_audio lib cfg u n s")
  then have k: "skipped (stats s') = skipped (stats s)"
    using download_video_audio_skipped [of lib cfg u n s] by simp
  show ?case
  proof (cases r)
    case (Inl e)
    with d k show ?thesis by simp
  next
    case (Inr res)
    with d k show ?thesis by (simp add: Cons.IH)
  qed
qed

lemma download_from_channel_skipped:
  "skipped (stats (snd (download_from_channel lib cfg url n mv s))) = skipped (stats s)"
  by (simp add: download_from_channel_def download_loop_skipped split: prod.splits)

lemma do_call_skipped: "skipped (stats (do_call lib cfg c s)) = skipped (stats s)"
  by (cases c) (simp_all add: download_video_audio_skipped download_from_channel_skipped)

lemma do_calls_skipped: "skipped (stats (do_calls lib cfg cs s)) = skipped (stats s)"
  by (induction cs arbitrary: s) (simp_all add: do_call_skipped)

text \<open>
  Claim C10. The counter \<open>skipped\<close> starts at 0 and no operation of the downloader changes
  it: after any sequence of calls on a new instance, whatever the library answers,
  \<open>skipped\<close> is 0 and the line that \<open>print_stats\<close> logs for it reads \<open>Skipped: 0\<close>.
\<close>

theorem skipped_never_incremented:
  "skipped (stats (do_calls lib cfg calls \<lparr>world = w, stats = init_stats, files = fs\<rparr>)) = 0 \<and>
   print_stats (stats (do_calls lib cfg calls \<lparr>world = w, stats = init_stats, files = fs\<rparr>)) ! 6
     = ''Skipped: 0''"
proof -
  have "skipped (stats (do_calls lib cfg calls \<lparr>world = w, stats = init_stats, files = fs\<rparr>)) = 0"
    by (simp add: do_calls_skipped init_stats_def)
  then show ?thesis
    by (simp add: print_stats_def str_int_def str_nat.simps digit_char_def)
qed

theorem skipped_never_incremented_witness:
  "skipped (stats (do_calls
       (canned_library [EntryDict (Some ''BFudEmWtgAc'')] (\<lambda>path. None)
          (DownloadRaises ''HTTP Error 403: Forbidden''))
       default_config
       [DownloadVideoAudio ''not-a-url'' ''test_channel'',
        DownloadFromChannel ''https://x/channel/AAA'' ''leon'' None,
        GetChannelVideos ''https://x/channel/AAA'' (Some 3),
        PrintStats]
       \<lparr>world = 0, stats = init_stats, files = Map.empty\<rparr>)) = 0 \<and>
   print_stats (stats (do_calls
       (canned_library [EntryDict (Some ''BFudEmWtgAc'')] (\<lambda>path. None)
          (DownloadRaises ''HTTP Error 403: Forbidden''))
       default_config
       [DownloadVideoAudio ''not-a-url'' ''test_channel'',
        DownloadFromChannel ''https://x/channel/AAA'' ''leon'' None,
        GetChannelVideos ''https://x/channel/AAA'' (Some 3),
        PrintStats]
       \<lparr>world = 0, stats = init_stats, files = Map.empty\<rparr>)) ! 6 = ''Skipped: 0''"
  by (rule skipped_never_incremented)

subsection \<open>\<open>get_channel_videos\<close> and \<open>max_videos\<close>\<close>

lemma reached_max_zero: "reached_max (Some 0) urls = reached_max None urls"
  by (simp add: reached_max_def)

lemma collect_urls_zero: "collect_urls (Some 0) es raises acc = collect_urls None es raises acc"
  by (induction "Some (0::int)" es raises acc rule: collect_urls.induct)
     (simp_all add: reached_max_zero Let_def)

lemma collect_urls_bound:
  "0 < n \<Longrightarrow> int (length acc) < n \<Longrightarrow> collect_urls (Some n) es raises acc = Inr urls \<Longrightarrow>
     int (length urls) \<le> n"
proof (induction es arbitrary: acc)
  case Nil
  then show ?case by (auto split: option.splits)
next
  case (Cons e es)
  show ?case
  proof (cases e)
    case EntryNone
    with Cons show ?thesis by simp
  next
    case (EntryDict i)
    show ?thesis
    proof (cases i)
      case None
      with EntryDict Cons show ?thesis by simp
    next
      case (Some video_id)
      let ?acc = "acc @ [''https://www.youtube.com/watch?v='' @ video_id]"
      show ?thesis
      proof (cases "reached_max (Some n) ?acc")
        case True
        with Cons.prems EntryDict Some have "urls = ?acc" by (simp add: Let_def)
        with Cons.prems(2) show ?thesis by simp
      next
        case False
        then have lt: "int (length ?acc) < n"
          using Cons.prems(1) by (simp add: reached_max_def)
        from Cons.prems(3) EntryDict Some False
        have "collect_urls (Some n) es raises ?acc = Inr urls" by (simp add: Let_def)
        with Cons.IH [OF Cons.prems(1) lt] show ?thesis by simp
      qed
    qed
  qed
qed

text \<open>
  Claim C4, as amended. For every \<open>max_videos = N\<close> with \<open>N \<ge> 1\<close>, \<open>get_channel_videos\<close>
  returns at most \<open>N\<close> URLs, whatever the channel enumerates; \<open>N = 0\<close> is read as
  "no limit" and gives what \<open>max_videos = None\<close> gives.
\<close>

theorem get_channel_videos_at_most_max:
  "(0 < n \<longrightarrow> int (length (fst (get_channel_videos lib cfg channel_url (Some n) w))) \<le> n) \<and>
   get_channel_videos lib cfg channel_url (Some 0) w = get_channel_videos lib cfg channel_url None w"
proof (intro conjI impI)
  assume n: "0 < n"
  obtain r w' where e: "ydl_extract_flat lib (flat_opts lib cfg w) channel_url w = (r, w')"
    by (cases "ydl_extract_flat lib (flat_opts lib cfg w) channel_url w")
  show "int (length (fst (get_channel_videos lib cfg channel_url (Some n) w))) \<le> n"
  proof (cases r)
    case (ExtractEntries es raises)
    show ?thesis
    proof (cases "collect_urls (Some n) es raises []")
      case (Inl x)
      with e ExtractEntries n show ?thesis by (simp add: get_channel_videos_def)
    next
      case (Inr urls)
      with n have "int (length urls) \<le> n" by (intro collect_urls_bound [of n "[]" es raises]) simp_all
      with e ExtractEntries Inr show ?thesis by (simp add: get_channel_videos_def)
    qed
  qed (use e n in \<open>simp_all add: get_channel_videos_def\<close>)
next
  show "get_channel_videos lib cfg channel_url (Some 0) w = get_channel_videos lib cfg channel_url None w"
    by (simp add: get_channel_videos_def collect_urls_zero split: prod.splits extract_result.splits)
qed

theorem get_channel_videos_at_most_max_witness:
  "(0::int) < 1 \<and>
   int (length (fst (get_channel_videos
          (canned_library [EntryDict (Some ''BFudEmWtgAc''), EntryNone, EntryDict (Some ''dQw4w9WgXcQ'')]
             (\<lambda>path. None) (DownloadInfo None))
          default_config ''https://x/channel/AAA'' (Some 1) 0))) \<le> 1"
  using get_channel_videos_at_most_max [of 1 "canned_library [EntryDict (Some ''BFudEmWtgAc''), EntryNone, EntryDict (Some ''dQw4w9WgXcQ'')]
             (\<lambda>path. None) (DownloadInfo None)" default_config "''https://x/channel/AAA''" 0]
  by simp

text \<open>
  The claim as it was stated fails at \<open>N = 0\<close>: the test \<open>max_videos and ...\<close> is false
  for 0, so a channel with one entry gives one URL.
\<close>

theorem get_channel_videos_max_zero_uncapped:
  "fst (get_channel_videos
          (canned_library [EntryDict (Some ''BFudEmWtgAc'')] (\<lambda>path. None) (DownloadInfo None))
          default_config ''https://x/channel/AAA'' (Some 0) 0)
     = [''https://www.youtube.com/watch?v=BFudEmWtgAc''] \<and>
   \<not> length (fst (get_channel_videos
          (canned_library [EntryDict (Some ''BFudEmWtgAc'')] (\<lambda>path. None) (DownloadInfo None))
          default_config ''https://x/channel/AAA'' (Some 0) 0)) \<le> 0"
  by (simp add: get_channel_videos_def canned_library_def reached_max_def)

subsection \<open>\<open>download_video_audio\<close>\<close>

lemma extract_video_id_example: "extract_video_id ''https://www.youtube.com/watch?v=BFudEmWtgAc'' = Some ''BFudEmWtgAc''"
  by (simp add: extract_video_id_def match_pattern1_def startswith_def match_id_def id_char_def)



text \<open>
  With the ID found and the directory made, every call counts exactly one outcome.
\<close>

lemma download_counts_one:
  assumes "extract_video_id video_url = Some video_id"
    and "os_mkdir lib (path_join lib (path_join lib (output_base_dir cfg) channel_name) video_id)
           (world s) = (None, w1)"
  shows "(successful (stats (snd (download_video_audio lib cfg video_url channel_name s)))
            = successful (stats s) + 1 \<and>
          failed (stats (snd (download_video_audio lib cfg video_url channel_name s)))
            = failed (stats s)) \<or>
         (successful (stats (snd (download_video_audio lib cfg video_url channel_name s)))
            = successful (stats s) \<and>
          failed (stats (snd (download_video_audio lib cfg video_url channel_name s)))
            = failed (stats s) + 1)"
  using assms
  by (simp add: download_video_audio_def download_failed_def Let_def
      split: prod.splits download_result.splits option.splits)

text \<open>
  Claim C2 does not hold of the code: for a URL with no video ID the call returns a dict
  with status \<open>failed\<close> and leaves every counter as it was. Here the call is made on a new
  instance.
\<close>

theorem invalid_url_failure_not_counted:
  "fst (download_video_audio
          (canned_library [] (\<lambda>path. None) (DownloadRaises ''HTTP Error 403: Forbidden''))
          default_config ''not-a-url'' ''test_channel'' start_state)
     = Inr [(''video_url'', JStr ''not-a-url''), (''status'', JStr ''failed''),
            (''error'', JStr ''Invalid video URL'')] \<and>
   stats (snd (download_video_audio
          (canned_library [] (\<lambda>path. None) (DownloadRaises ''HTTP Error 403: Forbidden''))
          default_config ''not-a-url'' ''test_channel'' start_state))
     = \<lparr>total_videos = 0, successful = 0, failed = 0, skipped = 0\<rparr>"
proof -
  have "extract_video_id ''not-a-url'' = None"
    by (rule extract_video_id_no_token) (simp add: match_id_def)
  then show ?thesis
    by (simp add: download_video_audio_def start_state_def init_stats_def)
qed

subsection \<open>The counts of a channel result\<close>

lemma download_loop_status:
  "download_loop lib cfg n urls rs s = (Inr out, s') \<Longrightarrow> list_all status_ok rs \<Longrightarrow>
     list_all status_ok out"
proof (induction urls arbitrary: rs s)
  case Nil
  then show ?case by simp
next
  case (Cons u us)
  obtain r s1 where d: "download_video_audio lib cfg u n s = (r, s1)"
    by (cases "download_video_audio lib cfg u n s")
  show ?case
  proof (cases r)
    case (Inl e)
    with d Cons.prems show ?thesis by simp
  next
    case (Inr res)
    with d have "status_ok res"
      using download_video_audio_status [of lib cfg u n s res s1] by (simp add: status_ok_def)
    with Cons.prems(2) have ok: "list_all status_ok (rs @ [res])" by simp
    obtain s2 where "download_loop lib cfg n us (rs @ [res]) s2 = (Inr out, s')"
      using Cons.prems(1) d Inr by simp
    then show ?thesis using ok by (rule Cons.IH)
  qed
qed

lemma download_from_channel_status:
  "download_from_channel lib cfg url n mv s = (Inr out, s') \<Longrightarrow> list_all status_ok out"
proof -
  assume a: "download_from_channel lib cfg url n mv s = (Inr out, s')"
  obtain urls w' where g: "get_channel_videos lib cfg url mv (world s) = (urls, w')"
    by (cases "get_channel_videos lib cfg url mv (world s)")
  show ?thesis
  proof (cases "urls = []")
    case True
    with a g show ?thesis by (simp add: download_from_channel_def)
  next
    case False
    with a g obtain s0 where "download_loop lib cfg n urls [] s0 = (Inr out, s')"
      by (simp add: download_from_channel_def)
    then show ?thesis by (rule download_loop_status) simp
  qed
qed

lemma status_ok_has_status:
  "list_all status_ok rs \<Longrightarrow> list_all (\<lambda>r. map_of r ''status'' \<noteq> None) rs"
  by (induction rs) (auto simp: status_ok_def)

lemma status_ok_counts:
  "list_all status_ok rs \<Longrightarrow>
     int (length (filter (\<lambda>r. map_of r ''status'' = Some (JStr ''success'')) rs)) +
     int (length (filter (\<lambda>r. map_of r ''status'' = Some (JStr ''failed'')) rs)) =
     int (length rs)"
  by (induction rs) (auto simp: status_ok_def)

lemma count_status_ok:
  assumes "list_all status_ok rs"
  shows "\<exists>a b. count_status ''success'' rs = Inr a \<and> count_status ''failed'' rs = Inr b \<and>
           a + b = int (length rs)"
  using status_ok_has_status [OF assms] status_ok_counts [OF assms]
  by (simp add: count_status_def)

lemma dict_set_list_all: "list_all P d \<Longrightarrow> P (k, v) \<Longrightarrow> list_all P (dict_set k v d)"
  by (induction d) auto

lemma channel_error_ok:
  assumes "list_all (\<lambda>entry. channel_result_ok (snd entry)) (all_results b)"
  shows "list_all (\<lambda>entry. channel_result_ok (snd entry)) (all_results (channel_error n u e s b))"
proof -
  have "channel_result_ok (JObj [(''channel_url'', JStr u), (''status'', JStr ''error''), (''error'', JStr e)])"
    by (simp add: channel_result_ok_def is_error_entry_def)
  with assms show ?thesis
    by (simp add: channel_error_def dict_set_list_all)
qed

lemma counted_entry_ok:
  assumes "a + b = int (length results)"
  shows "channel_result_ok (JObj [(''channel_url'', JStr u),
            (''total_videos'', JInt (int (length results))),
            (''successful'', JInt a), (''failed'', JInt b),
            (''videos'', JList (map JObj results))])"
  using assms by (simp add: channel_result_ok_def counts_add_up_def)

lemma process_channel_ok:
  assumes "list_all (\<lambda>entry. channel_result_ok (snd entry)) (all_results b)"
  shows "list_all (\<lambda>entry. channel_result_ok (snd entry))
           (all_results (process_channel lib cfg mv channel b))"
proof -
  obtain n u where c: "channel = (n, u)" by (cases channel)
  obtain r s' where d: "download_from_channel lib cfg u n mv (dl b) = (r, s')"
    by (cases "download_from_channel lib cfg u n mv (dl b)")
  show ?thesis
  proof (cases r)
    case (Inl e)
    with c d show ?thesis
      by (simp add: process_channel_def channel_error_ok [OF assms])
  next
    case (Inr results)
    with d have "list_all status_ok results"
      by (auto dest: download_from_channel_status)
    then obtain x y where k: "count_status ''success'' results = Inr x"
      "count_status ''failed'' results = Inr y" "x + y = int (length results)"
      using count_status_ok by blast
    from c d Inr k(1,2) assms counted_entry_ok [OF k(3)] show ?thesis
      by (simp add: process_channel_def Let_def dict_set_list_all)
  qed
qed

lemma process_channels_ok:
  "list_all (\<lambda>entry. channel_result_ok (snd entry)) (all_results b) \<Longrightarrow>
   list_all (\<lambda>entry. channel_result_ok (snd entry))
     (all_results (process_channels lib cfg mv channels b))"
  by (induction channels arbitrary: b) (simp_all add: process_channel_ok)

lemma process_from_init_ok:
  "list_all (\<lambda>entry. channel_result_ok (snd entry))
     (all_results (process_channels lib cfg max_videos channels (init_batch w fs)))"
  by (rule process_channels_ok) (simp add: init_batch_def)

lemma main_ok:
  "list_all (\<lambda>entry. channel_result_ok (snd entry)) (all_results (snd (main lib a w fs)))"
proof -
  have "all_results (init_batch w fs) = []" for w :: 'a
    by (simp add: init_batch_def)
  then show ?thesis
    by (simp add: main_def Let_def process_from_init_ok
        split: sum.splits prod.splits option.splits)
qed

text \<open>
  Claim C1. After the loop over any list of channels, with any answers of the library,
  every value of the results mapping is well formed: it is an error entry, which records
  no counts, or its counts satisfy \<open>successful + failed = total_videos\<close> with
  \<open>total_videos\<close> the length of \<open>videos\<close>. The same holds of the mapping that \<open>main\<close>
  ends with.
\<close>

theorem channel_result_counts_add_up:
  "list_all (\<lambda>entry. channel_result_ok (snd entry))
     (all_results (process_channels lib cfg max_videos channels (init_batch w fs))) \<and>
   list_all (\<lambda>entry. channel_result_ok (snd entry)) (all_results (snd (main lib a w fs)))"
  by (rule conjI [OF process_from_init_ok main_ok])

text \<open>A channel that enumerates no video gets an entry with three zero counts.\<close>

theorem channel_result_counts_add_up_witness:
  "all_results (process_channels (canned_library [] (\<lambda>path. None) (DownloadInfo None))
      default_config None [(''leon'', ''https://x/channel/AAA'')] (init_batch 0 Map.empty)) =
     [(''leon'', JObj [(''channel_url'', JStr ''https://x/channel/AAA''),
                      (''total_videos'', JInt 0),
                      (''successful'', JInt 0),
                      (''failed'', JInt 0),
                      (''videos'', JList [])])] \<and>
   list_all (\<lambda>entry. channel_result_ok (snd entry))
     (all_results (process_channels (canned_library [] (\<lambda>path. None) (DownloadInfo None))
        default_config None [(''leon'', ''https://x/channel/AAA'')] (init_batch 0 Map.empty)))"
proof -
  have "all_results (process_channels (canned_library [] (\<lambda>path. None) (DownloadInfo None))
      default_config None [(''leon'', ''https://x/channel/AAA'')] (init_batch 0 Map.empty)) =
     [(''leon'', JObj [(''channel_url'', JStr ''https://x/channel/AAA''),
                      (''total_videos'', JInt 0),
                      (''successful'', JInt 0),
                      (''failed'', JInt 0),
                      (''videos'', JList [])])]"
    by (simp add: process_channel_def download_from_channel_def get_channel_videos_def
        canned_library_def init_batch_def count_status_def save_batch_results_def Let_def)
  moreover note channel_result_counts_add_up
    [of "canned_library [] (\<lambda>path. None) (DownloadInfo None)" default_config None
        "[(''leon'', ''https://x/channel/AAA'')]" 0 Map.empty]
  ultimately show ?thesis by blast
qed

section \<open>The result persister and the checkpoint: properties\<close>

lemma high_char_neq: "128 \<le> (of_char c :: nat) \<Longrightarrow> (of_char d :: nat) < 128 \<Longrightarrow> c \<noteq> d"
  by auto

lemma escape_char_non_ascii:
  assumes "128 \<le> (of_char c :: nat)"
  shows "escape_char c = [c]"
proof -
  have "c \<noteq> CHR 0x5C" "c \<noteq> CHR 0x22" "c \<noteq> CHR 0x08" "c \<noteq> CHR 0x0C"
    "c \<noteq> CHR 0x0A" "c \<noteq> CHR 0x0D" "c \<noteq> CHR 0x09"
    by (rule high_char_neq [OF assms], simp)+
  moreover have "\<not> (of_char c :: nat) < 32" using assms by simp
  ultimately show ?thesis by (simp only: escape_char_def if_False)
qed

text \<open>
  Claim C9. Two writes of the same mapping to the same file, both of which succeed,
  leave the file system as the first write left it, and the file holds the text that
  \<open>json.dump\<close> gives for the mapping, its keys in the order of the mapping.
\<close>

theorem save_batch_results_idempotent:
  assumes "fst (os_open_write lib output_file (world s)) = WriteOk"
    and "fst (os_open_write lib output_file
               (world (save_batch_results lib results output_file s))) = WriteOk"
  shows "files (save_batch_results lib results output_file
                  (save_batch_results lib results output_file s))
           = files (save_batch_results lib results output_file s) \<and>
         files (save_batch_results lib results output_file s) output_file
           = Some (Text (json_dumps (JObj results)))"
  using assms
  by (auto simp: save_batch_results_def write_text_def split: prod.splits)

theorem save_batch_results_idempotent_witness:
  "files (save_batch_results (canned_library [] (\<lambda>path. None) (DownloadInfo None))
            [(''leon'', JObj [(''channel_url'', JStr ''https://x/channel/AAA''),
                             (''total_videos'', JInt 0)])]
            ''batch_results_final.json''
            (save_batch_results (canned_library [] (\<lambda>path. None) (DownloadInfo None))
               [(''leon'', JObj [(''channel_url'', JStr ''https://x/channel/AAA''),
                                (''total_videos'', JInt 0)])]
               ''batch_results_final.json'' start_state))
     ''batch_results_final.json'' =
   Some (Text (json_dumps (JObj
     [(''leon'', JObj [(''channel_url'', JStr ''https://x/channel/AAA''),
                      (''total_videos'', JInt 0)])])))"
proof -
  let ?lib = "canned_library [] (\<lambda>path. None) (DownloadInfo None)"
  have 1: "fst (os_open_write ?lib ''batch_results_final.json'' w) = WriteOk" for w
    by (simp add: canned_library_def)
  from save_batch_results_idempotent [OF 1 1] show ?thesis by simp
qed

text \<open>
  The text for a small value: two spaces for each level, and a character beyond ASCII
  written as it is.
\<close>

lemma json_dumps_example:
  "json_dumps (JObj [(''k'', JList [JInt 1, JStr [CHR 0xE9]])]) =
     ''{\<newline>  '' @ [CHR 0x22] @ ''k'' @ [CHR 0x22] @ '': [\<newline>    1,\<newline>    '' @
     [CHR 0x22, CHR 0xE9, CHR 0x22] @ ''\<newline>  ]\<newline>}''"
  by (simp add: json_dumps_def encode_items_def newline_indent_def encode_basestring_def
      escape_char_def str_int_def str_nat.simps digit_char_def eval_nat_numeral)

text \<open>
  After a channel that \<open>download_from_channel\<close> returns from, and a write that succeeds,
  the checkpoint file holds the text of the whole results mapping; after a channel that
  raises, the files are what the call left: no checkpoint is written.
\<close>

lemma checkpoint_after_channel:
  assumes "download_from_channel lib cfg u n mv (dl b) = (Inr results, s')"
    and "fst (os_open_write lib ''batch_results_checkpoint.json'' (world s')) = WriteOk"
  shows "files (dl (process_channel lib cfg mv (n, u) b)) ''batch_results_checkpoint.json''
           = Some (Text (json_dumps (JObj (all_results (process_channel lib cfg mv (n, u) b)))))"
proof -
  from assms(1) have "list_all status_ok results"
    by (rule download_from_channel_status)
  then obtain x y where k: "count_status ''success'' results = Inr x"
      "count_status ''failed'' results = Inr y"
    using count_status_ok by blast
  with assms show ?thesis
    by (auto simp: process_channel_def Let_def save_batch_results_def write_text_def
        split: prod.splits)
qed

lemma checkpoint_kept_on_error:
  assumes "download_from_channel lib cfg u n mv (dl b) = (Inl e, s')"
  shows "files (dl (process_channel lib cfg mv (n, u) b)) = files s'"
  using assms by (simp add: process_channel_def channel_error_def)

text \<open>
  Claim C3 does not hold of the code. Two channels: the first is processed (its one
  download fails with an error of the library), the second raises out of
  \<open>download_from_channel\<close> (its output directory cannot be made). After the second
  channel the results mapping has both entries, the checkpoint file still holds the
  text for the first channel only.
\<close>

theorem checkpoint_misses_failed_channel:
  "(let b = process_channels
              (canned_library [EntryDict (Some ''BFudEmWtgAc'')]
                 (\<lambda>path. if path = ''downloads/foo/BFudEmWtgAc''
                          then Some ''[Errno 13] Permission denied'' else None)
                 (DownloadRaises ''HTTP Error 403: Forbidden''))
              default_config None
              [(''leon'', ''https://x/channel/AAA''), (''foo'', ''https://x/channel/BBB'')]
              (init_batch 0 Map.empty)
    in all_results b =
         [(''leon'', JObj [(''channel_url'', JStr ''https://x/channel/AAA''),
                          (''total_videos'', JInt 1),
                          (''successful'', JInt 0),
                          (''failed'', JInt 1),
                          (''videos'', JList [JObj
                             [(''video_url'', JStr ''https://www.youtube.com/watch?v=BFudEmWtgAc''),
                              (''video_id'', JStr ''BFudEmWtgAc''),
                              (''channel_name'', JStr ''leon''),
                              (''status'', JStr ''failed''),
                              (''error'', JStr ''HTTP Error 403: Forbidden'')]])]),
          (''foo'', JObj [(''channel_url'', JStr ''https://x/channel/BBB''),
                         (''status'', JStr ''error''),
                         (''error'', JStr ''[Errno 13] Permission denied'')])] \<and>
       files (dl b) ''batch_results_checkpoint.json'' =
         Some (Text (json_dumps (JObj (take 1 (all_results b))))) \<and>
       files (dl b) ''batch_results_checkpoint.json'' \<noteq>
         Some (Text (json_dumps (JObj (all_results b)))))"
  by (simp add: Let_def process_channel_def download_from_channel_def get_channel_videos_def
      canned_library_def download_video_audio_def extract_video_id_example default_config_def init_batch_def
      count_status_def save_batch_results_def write_text_def channel_error_def reached_max_def
      download_failed_def init_stats_def
      json_dumps_def encode_items_def newline_indent_def encode_basestring_def escape_char_def
      str_int_def str_nat.simps digit_char_def)

end
